theory Spec2Isabelle
  imports Main "HOL-Library.Word" "HOL-Library.Sublist"
begin

unbundle bit_operations_syntax

section \<open>The Cirrus Logic Audio Card machine driver (rpi-cirrus.c)\<close>

text \<open>
  A shallow embedding of the clock handling of \<^verbatim>\<open>sound/soc/bcm/rpi-cirrus.c\<close>.
  C \<^verbatim>\<open>unsigned int\<close> and \<^verbatim>\<open>int\<close> fields are 32-bit words (an \<^verbatim>\<open>int\<close> field is read
  with \<open>sint\<close> where the code compares it as a signed value). The codec framework is
  outside the driver: every call into it is appended to a log of calls, and its return
  code is given by a hardware oracle that may depend on all earlier calls. Return codes
  are C \<^verbatim>\<open>int\<close>s that the driver only tests against zero; they are modelled as \<open>int\<close>.
  The driver's mutex is not modelled: every entry point is one atomic transition.
\<close>

subsection \<open>Constants and the sysclk family\<close>

type_synonym u32 = "32 word"

definition WM8804_CLKOUT_HZ :: u32 where
  "WM8804_CLKOUT_HZ = 12000000"

definition RPI_CIRRUS_DEFAULT_RATE :: u32 where
  "RPI_CIRRUS_DEFAULT_RATE = 44100"

text \<open>max sysclk for 4K family\<close>

definition WM5102_MAX_SYSCLK_1 :: u32 where
  "WM5102_MAX_SYSCLK_1 = 49152000"

text \<open>max sysclk for 11.025K family\<close>

definition WM5102_MAX_SYSCLK_2 :: u32 where
  "WM5102_MAX_SYSCLK_2 = 45158400"

definition calc_sysclk :: "u32 \<Rightarrow> u32" where
  "calc_sysclk rate =
     (if rate mod 4000 \<noteq> 0 then WM5102_MAX_SYSCLK_2 else WM5102_MAX_SYSCLK_1)"

subsection \<open>Driver state\<close>

record rpi_cirrus_priv =
  card_rate :: u32
  sync_path_enable :: u32
  fll1_freq :: u32
  params_set :: u32
  min_rate_idx :: u32
  max_rate_idx :: u32
  iec958_status :: "8 word list"

subsection \<open>Calls into the codec framework\<close>

datatype pll_id = WM5102_FLL1 | WM5102_FLL1_REFCLK

datatype pll_source = ARIZONA_FLL_SRC_NONE | ARIZONA_CLK_SRC_MCLK1 | ARIZONA_CLK_SRC_AIF2BCLK

text \<open>
  One constructor for each framework call the clock code makes:
  \<^item> \<open>Set_pll id src fin fout\<close>: \<^verbatim>\<open>snd_soc_component_set_pll(wm5102, id, src, fin, fout)\<close>;
  \<^item> \<open>Set_sysclk f\<close>: \<^verbatim>\<open>snd_soc_component_set_sysclk(wm5102, ARIZONA_CLK_SYSCLK,
    ARIZONA_CLK_SRC_FLL1, f, SND_SOC_CLOCK_IN)\<close>;
  \<^item> \<open>Set_bclk_ratio r\<close>: \<^verbatim>\<open>snd_soc_dai_set_bclk_ratio(bcm_i2s_dai, r)\<close>;
  \<^item> \<open>Set_tdm_slot w\<close>: \<^verbatim>\<open>snd_soc_dai_set_tdm_slot(codec_dai, 0x03, 0x03, 2, w)\<close>;
  \<^item> \<open>Wm8804_set_pll f\<close>: \<^verbatim>\<open>snd_soc_dai_set_pll(wm8804_dai, 0, 0, WM8804_CLKOUT_HZ, f)\<close>;
  \<^item> \<open>Wm8804_set_sysclk f\<close>: \<^verbatim>\<open>snd_soc_dai_set_sysclk(wm8804_dai, WM8804_TX_CLKSRC_PLL, f, 0)\<close>.
\<close>

datatype hw_call =
    Set_pll pll_id pll_source u32 u32
  | Set_sysclk u32
  | Set_bclk_ratio u32
  | Set_tdm_slot u32
  | Wm8804_set_pll u32
  | Wm8804_set_sysclk u32

text \<open>The hardware: the return code of a call, given the calls made before it.\<close>

type_synonym hw = "hw_call list \<Rightarrow> hw_call \<Rightarrow> int"

text \<open>
  The card: the private data, the rate limits of the codec-to-codec link
  (\<^verbatim>\<open>rpi_cirrus_dai_link2_params\<close>), and the log of framework calls, oldest first.
\<close>

record snd_soc_card =
  priv :: rpi_cirrus_priv
  link2_rate_min :: u32
  link2_rate_max :: u32
  calls :: "hw_call list"

definition hw_do :: "hw \<Rightarrow> hw_call \<Rightarrow> snd_soc_card \<Rightarrow> int \<times> snd_soc_card" where
  "hw_do hw c w = (hw (calls w) c, w\<lparr>calls := calls w @ [c]\<rparr>)"

subsection \<open>Sample rate limit controls\<close>

text \<open>
  The put callbacks of the "Min Sample Rate" and "Max Sample Rate" controls; \<open>item\<close> is
  \<^verbatim>\<open>ucontrol->value.enumerated.item[0]\<close>. The result is the callback's return value and
  the private data afterwards.
\<close>

definition NUM_MIN_RATES :: u32 where
  "NUM_MIN_RATES = 3"

definition NUM_MAX_RATES :: u32 where
  "NUM_MAX_RATES = 3"

definition rpi_cirrus_min_rate_put :: "u32 \<Rightarrow> rpi_cirrus_priv \<Rightarrow> int \<times> rpi_cirrus_priv" where
  "rpi_cirrus_min_rate_put item p =
     (if min_rate_idx p \<noteq> item then (1, p\<lparr>min_rate_idx := item\<rparr>) else (0, p))"

definition rpi_cirrus_max_rate_put :: "u32 \<Rightarrow> rpi_cirrus_priv \<Rightarrow> int \<times> rpi_cirrus_priv" where
  "rpi_cirrus_max_rate_put item p =
     (if max_rate_idx p \<noteq> item then (1, p\<lparr>max_rate_idx := item\<rparr>) else (0, p))"

text \<open>
  The info callbacks clamp the item they are asked to describe
  (\<^verbatim>\<open>uinfo->value.enumerated.item\<close>); the result is the item after the call.
\<close>

definition rpi_cirrus_min_rate_info_item :: "u32 \<Rightarrow> u32" where
  "rpi_cirrus_min_rate_info_item item =
     (if item \<ge> NUM_MIN_RATES then NUM_MIN_RATES - 1 else item)"

definition rpi_cirrus_max_rate_info_item :: "u32 \<Rightarrow> u32" where
  "rpi_cirrus_max_rate_info_item item =
     (if item \<ge> NUM_MAX_RATES then NUM_MAX_RATES - 1 else item)"

subsection \<open>FLL helpers\<close>

definition rpi_cirrus_clear_flls :: "hw \<Rightarrow> snd_soc_card \<Rightarrow> int \<times> snd_soc_card" where
  "rpi_cirrus_clear_flls hw w =
     (let (ret1, w1) = hw_do hw (Set_pll WM5102_FLL1 ARIZONA_FLL_SRC_NONE 0 0) w;
          (ret2, w2) = hw_do hw (Set_pll WM5102_FLL1_REFCLK ARIZONA_FLL_SRC_NONE 0 0) w1
      in if ret1 \<noteq> 0 then (ret1, w2)
         else if ret2 \<noteq> 0 then (ret2, w2)
         else (0, w2))"

text \<open>The settle delay (\<^verbatim>\<open>usleep_range\<close>) after the call is not a framework call.\<close>

definition rpi_cirrus_set_fll :: "hw \<Rightarrow> u32 \<Rightarrow> snd_soc_card \<Rightarrow> int \<times> snd_soc_card" where
  "rpi_cirrus_set_fll hw clk_freq w =
     hw_do hw (Set_pll WM5102_FLL1 ARIZONA_CLK_SRC_MCLK1 WM8804_CLKOUT_HZ clk_freq) w"

definition rpi_cirrus_set_fll_refclk ::
  "hw \<Rightarrow> u32 \<Rightarrow> u32 \<Rightarrow> snd_soc_card \<Rightarrow> int \<times> snd_soc_card" where
  "rpi_cirrus_set_fll_refclk hw clk_freq aif2_freq w =
     (let (ret, w1) =
            hw_do hw (Set_pll WM5102_FLL1_REFCLK ARIZONA_CLK_SRC_MCLK1 WM8804_CLKOUT_HZ clk_freq) w
      in if ret \<noteq> 0 then (ret, w1)
         else hw_do hw (Set_pll WM5102_FLL1 ARIZONA_CLK_SRC_AIF2BCLK aif2_freq clk_freq) w1)"

subsection \<open>Routing event of the SPDIF receive path\<close>

datatype dapm_event = SND_SOC_DAPM_POST_PMU | SND_SOC_DAPM_POST_PMD | SND_SOC_DAPM_OTHER

definition rpi_cirrus_spdif_rx_enable_event ::
  "hw \<Rightarrow> dapm_event \<Rightarrow> snd_soc_card \<Rightarrow> int \<times> snd_soc_card" where
  "rpi_cirrus_spdif_rx_enable_event hw event w =
     (case event of
        SND_SOC_DAPM_POST_PMU \<Rightarrow>
          (let clk_freq = calc_sysclk (card_rate (priv w));
               aif2_freq = 64 * card_rate (priv w);
               (ret, w1) = rpi_cirrus_clear_flls hw w
           in if ret \<noteq> 0 then (ret, w1)
              else
                (let (ret, w2) = rpi_cirrus_set_fll_refclk hw clk_freq aif2_freq w1
                 in if ret \<noteq> 0 then (ret, w2)
                    else (ret, w2\<lparr>priv := (priv w2)\<lparr>fll1_freq := - clk_freq,
                                                     sync_path_enable := 1\<rparr>\<rparr>)))
      | SND_SOC_DAPM_POST_PMD \<Rightarrow> (0, w\<lparr>priv := (priv w)\<lparr>sync_path_enable := 0\<rparr>\<rparr>)
      | SND_SOC_DAPM_OTHER \<Rightarrow> (0, w))"

subsection \<open>Bias level callbacks\<close>

datatype snd_soc_bias_level =
  SND_SOC_BIAS_OFF | SND_SOC_BIAS_STANDBY | SND_SOC_BIAS_PREPARE | SND_SOC_BIAS_ON

text \<open>
  \<open>is_wm5102\<close> says whether \<^verbatim>\<open>dapm->dev\<close> is the WM5102 codec's device, \<open>bias_level\<close> is
  \<^verbatim>\<open>dapm->bias_level\<close>, the level before the transition, and \<open>level\<close> the requested one.
\<close>

definition rpi_cirrus_set_bias_level ::
  "hw \<Rightarrow> bool \<Rightarrow> snd_soc_bias_level \<Rightarrow> snd_soc_bias_level \<Rightarrow> snd_soc_card
     \<Rightarrow> int \<times> snd_soc_card" where
  "rpi_cirrus_set_bias_level hw is_wm5102 bias_level level w =
     (if \<not> is_wm5102 then (0, w)
      else case level of
        SND_SOC_BIAS_PREPARE \<Rightarrow>
          if bias_level = SND_SOC_BIAS_ON then (0, w)
          else if sync_path_enable (priv w) = 0 then
            (let clk_freq = calc_sysclk (card_rate (priv w));
                 (ret, w1) = rpi_cirrus_set_fll hw clk_freq w
             in if ret \<noteq> 0 then (ret, w1)
                else (ret, w1\<lparr>priv := (priv w1)\<lparr>fll1_freq := clk_freq\<rparr>\<rparr>))
          else (0, w)
      | _ \<Rightarrow> (0, w))"

definition rpi_cirrus_set_bias_level_post ::
  "hw \<Rightarrow> bool \<Rightarrow> snd_soc_bias_level \<Rightarrow> snd_soc_card \<Rightarrow> int \<times> snd_soc_card" where
  "rpi_cirrus_set_bias_level_post hw is_wm5102 level w =
     (if \<not> is_wm5102 then (0, w)
      else case level of
        SND_SOC_BIAS_STANDBY \<Rightarrow>
          (let (ret, w1) = rpi_cirrus_clear_flls hw w
           in if ret \<noteq> 0 then (0, w1)
              else (0, w1\<lparr>priv := (priv w1)\<lparr>fll1_freq := 0\<rparr>\<rparr>))
      | _ \<Rightarrow> (0, w))"

subsection \<open>Stream parameters\<close>

datatype pcm_stream = SNDRV_PCM_STREAM_PLAYBACK | SNDRV_PCM_STREAM_CAPTURE

text \<open>The value of \<^verbatim>\<open>substream->stream\<close>.\<close>

fun stream_no :: "pcm_stream \<Rightarrow> nat" where
  "stream_no SNDRV_PCM_STREAM_PLAYBACK = 0"
| "stream_no SNDRV_PCM_STREAM_CAPTURE = 1"

definition rpi_cirrus_set_wm8804_pll :: "hw \<Rightarrow> u32 \<Rightarrow> snd_soc_card \<Rightarrow> int \<times> snd_soc_card" where
  "rpi_cirrus_set_wm8804_pll hw rate w =
     (let clk_freq = rate * 256;
          (ret, w1) = hw_do hw (Wm8804_set_pll clk_freq) w
      in if ret \<noteq> 0 then (ret, w1)
         else hw_do hw (Wm8804_set_sysclk clk_freq) w1)"

text \<open>
  The end of \<^verbatim>\<open>rpi_cirrus_hw_params\<close>, after the FLL block: the rate and the stream's
  bit are recorded and \<open>ret\<close> is returned.
\<close>

definition hw_params_done :: "pcm_stream \<Rightarrow> u32 \<Rightarrow> int \<Rightarrow> snd_soc_card \<Rightarrow> int \<times> snd_soc_card" where
  "hw_params_done stream rate ret w =
     (ret, w\<lparr>priv := (priv w)
                 \<lparr>card_rate := rate,
                  params_set := params_set (priv w) OR push_bit (stream_no stream) 1\<rparr>,
               link2_rate_min := rate,
               link2_rate_max := rate\<rparr>)"

text \<open>
  \<open>width\<close> is \<^verbatim>\<open>snd_pcm_format_width(params_format(params))\<close> and \<open>rate\<close> is
  \<^verbatim>\<open>params_rate(params)\<close>. Every \<^verbatim>\<open>goto out\<close> returns the current \<open>ret\<close>; the FLL
  block tests the results of its two calls without assigning them to \<open>ret\<close>.
\<close>

definition rpi_cirrus_hw_params ::
  "hw \<Rightarrow> pcm_stream \<Rightarrow> u32 \<Rightarrow> u32 \<Rightarrow> snd_soc_card \<Rightarrow> int \<times> snd_soc_card" where
  "rpi_cirrus_hw_params hw stream width rate w =
     (let clk_freq = calc_sysclk rate;
          (ret, w1) = hw_do hw (Set_bclk_ratio (2 * width)) w
      in if ret \<noteq> 0 then (ret, w1)
      else
        (let (ret, w2) = hw_do hw (Set_tdm_slot width) w1
         in if ret \<noteq> 0 then (ret, w2)
         else
           (let (ret, w3) =
                  (if rate \<ge> 32000 then rpi_cirrus_set_wm8804_pll hw rate w2 else (ret, w2))
            in if rate \<ge> 32000 \<and> ret \<noteq> 0 then (ret, w3)
            else
              (let (ret, w4) = hw_do hw (Set_sysclk clk_freq) w3
               in if ret \<noteq> 0 then (ret, w4)
               else if 0 < sint (fll1_freq (priv w4)) \<and> fll1_freq (priv w4) \<noteq> clk_freq then
                 (let (r1, w5) = rpi_cirrus_clear_flls hw w4
                  in if r1 \<noteq> 0 then (ret, w5)
                     else
                       (let (r2, w6) = rpi_cirrus_set_fll hw clk_freq w5
                        in if r2 \<noteq> 0 then (ret, w6)
                           else hw_params_done stream rate ret
                                  (w6\<lparr>priv := (priv w6)\<lparr>fll1_freq := clk_freq\<rparr>\<rparr>)))
               else hw_params_done stream rate ret w4))))"

definition rpi_cirrus_hw_free :: "hw \<Rightarrow> pcm_stream \<Rightarrow> snd_soc_card \<Rightarrow> int \<times> snd_soc_card" where
  "rpi_cirrus_hw_free hw stream w =
     (let old_params_set = params_set (priv w);
          w1 = w\<lparr>priv := (priv w)
                  \<lparr>params_set := params_set (priv w) AND NOT (push_bit (stream_no stream) 1)\<rparr>\<rparr>
      in if params_set (priv w1) = 0 \<and> old_params_set \<noteq> 0 then
           (let (ret, w2) = hw_do hw (Set_sysclk 0) w1 in (0, w2))
         else (0, w1))"

subsection \<open>The state after probe, and runs of entry points\<close>

text \<open>
  \<^verbatim>\<open>rpi_cirrus_probe\<close> zero-allocates the private data and sets \<open>min_rate_idx\<close> and
  \<open>card_rate\<close>; the link parameters are initialised statically. The four status bytes
  are loaded from the WM8804 when its link is initialised; the clock handling never reads
  them, and they are left at zero here.
\<close>

definition probe_priv :: rpi_cirrus_priv where
  "probe_priv =
     \<lparr>card_rate = RPI_CIRRUS_DEFAULT_RATE, sync_path_enable = 0, fll1_freq = 0,
      params_set = 0, min_rate_idx = 1, max_rate_idx = 0, iec958_status = [0, 0, 0, 0]\<rparr>"

definition probe_card :: snd_soc_card where
  "probe_card =
     \<lparr>priv = probe_priv, link2_rate_min = RPI_CIRRUS_DEFAULT_RATE,
      link2_rate_max = RPI_CIRRUS_DEFAULT_RATE, calls = []\<rparr>"

datatype entry =
    Spdif_rx_enable_event dapm_event
  | Set_bias_level bool snd_soc_bias_level snd_soc_bias_level
  | Set_bias_level_post bool snd_soc_bias_level
  | Hw_params pcm_stream u32 u32
  | Hw_free pcm_stream

fun enter :: "hw \<Rightarrow> entry \<Rightarrow> snd_soc_card \<Rightarrow> int \<times> snd_soc_card" where
  "enter hw (Spdif_rx_enable_event ev) w = rpi_cirrus_spdif_rx_enable_event hw ev w"
| "enter hw (Set_bias_level d b l) w = rpi_cirrus_set_bias_level hw d b l w"
| "enter hw (Set_bias_level_post d l) w = rpi_cirrus_set_bias_level_post hw d l w"
| "enter hw (Hw_params s width rate) w = rpi_cirrus_hw_params hw s width rate w"
| "enter hw (Hw_free s) w = rpi_cirrus_hw_free hw s w"

fun run :: "hw \<Rightarrow> entry list \<Rightarrow> snd_soc_card \<Rightarrow> snd_soc_card" where
  "run hw [] w = w"
| "run hw (e # es) w = run hw es (snd (enter hw e w))"

text \<open>The calls an entry point added to the log.\<close>

definition issued :: "snd_soc_card \<Rightarrow> snd_soc_card \<Rightarrow> hw_call list" where
  "issued w w' = drop (length (calls w)) (calls w')"

text \<open>
  A hardware on which every call succeeds, and one on which the call \<open>c0\<close> fails
  with \<^verbatim>\<open>-EINVAL\<close> whenever it is made and every other call succeeds.
\<close>

definition hw_ok :: hw where
  "hw_ok h c = 0"

definition hw_failing :: "hw_call \<Rightarrow> hw" where
  "hw_failing c0 h c = (if c = c0 then - 22 else 0)"

text \<open>
  The card after probe and one prepare transition of the WM5102's bias level on which the
  hardware call succeeded: FLL1 runs from the master clock at 45158400 Hz.
\<close>

definition local_card :: snd_soc_card where
  "local_card =
     snd (rpi_cirrus_set_bias_level hw_ok True SND_SOC_BIAS_STANDBY SND_SOC_BIAS_PREPARE
            probe_card)"

text \<open>The invariant of the clock state: no positive frequency while the sync path is enabled.\<close>

definition clock_inv :: "snd_soc_card \<Rightarrow> bool" where
  "clock_inv w \<longleftrightarrow> (sync_path_enable (priv w) \<noteq> 0 \<longrightarrow> sint (fll1_freq (priv w)) \<le> 0)"

text \<open>
  Every call of a list succeeds when the calls are made one after the other, the first
  one after the calls \<open>h\<close>.
\<close>

fun calls_ok :: "hw \<Rightarrow> hw_call list \<Rightarrow> hw_call list \<Rightarrow> bool" where
  "calls_ok hw h [] = True"
| "calls_ok hw h (c # cs) = (hw h c = 0 \<and> calls_ok hw (h @ [c]) cs)"

subsection \<open>The transitions of the specification, as framework calls\<close>

text \<open>
  The specification names three transitions of FLL1. They are written here as the
  framework calls that the specification gives for each, to state what the entry points
  above issue: \<open>clear()\<close> disables FLL1 and then its reference clock path,
  \<open>enable_local\<close> drives FLL1 from the fixed master clock, and \<open>enable_referenced\<close>
  primes the reference clock path from the master clock and then drives FLL1 from the
  bit clock of AIF2.
\<close>

definition clear_calls :: "hw_call list" where
  "clear_calls =
     [Set_pll WM5102_FLL1 ARIZONA_FLL_SRC_NONE 0 0,
      Set_pll WM5102_FLL1_REFCLK ARIZONA_FLL_SRC_NONE 0 0]"

definition enable_local_call :: "u32 \<Rightarrow> hw_call" where
  "enable_local_call clk_freq = Set_pll WM5102_FLL1 ARIZONA_CLK_SRC_MCLK1 12000000 clk_freq"

definition enable_referenced_calls :: "u32 \<Rightarrow> u32 \<Rightarrow> hw_call list" where
  "enable_referenced_calls aif2_freq clk_freq =
     [Set_pll WM5102_FLL1_REFCLK ARIZONA_CLK_SRC_MCLK1 12000000 clk_freq,
      Set_pll WM5102_FLL1 ARIZONA_CLK_SRC_AIF2BCLK aif2_freq clk_freq]"

text \<open>The FLL is running from the master clock at another frequency than \<open>clk_freq\<close>.\<close>

definition local_at_other :: "snd_soc_card \<Rightarrow> u32 \<Rightarrow> bool" where
  "local_at_other w clk_freq \<longleftrightarrow> 0 < sint (fll1_freq (priv w)) \<and> fll1_freq (priv w) \<noteq> clk_freq"

text \<open>The calls of a parameter negotiation at \<open>rate\<close> on which no call fails.\<close>

definition hw_params_calls :: "snd_soc_card \<Rightarrow> u32 \<Rightarrow> u32 \<Rightarrow> hw_call list" where
  "hw_params_calls w width rate =
     [Set_bclk_ratio (2 * width), Set_tdm_slot width]
     @ (if rate \<ge> 32000 then [Wm8804_set_pll (rate * 256), Wm8804_set_sysclk (rate * 256)] else [])
     @ [Set_sysclk (calc_sysclk rate)]
     @ (if local_at_other w (calc_sysclk rate)
        then clear_calls @ [enable_local_call (calc_sysclk rate)] else [])"

text \<open>The calls of the routing power-up event on which no call fails.\<close>

definition spdif_rx_enable_calls :: "snd_soc_card \<Rightarrow> hw_call list" where
  "spdif_rx_enable_calls w =
     clear_calls
     @ enable_referenced_calls (64 * card_rate (priv w)) (calc_sysclk (card_rate (priv w)))"

section \<open>Theorems\<close>

subsection \<open>Auxiliary facts\<close>

lemma calc_sysclk_cases:
  "calc_sysclk r = 45158400 \<or> calc_sysclk r = 49152000"
  by (simp add: calc_sysclk_def WM5102_MAX_SYSCLK_1_def WM5102_MAX_SYSCLK_2_def)

lemma sint_neg_calc_sysclk: "sint (- calc_sysclk r) \<le> 0"
  using calc_sysclk_cases [of r] by auto

lemma calls_ok_hw_ok: "calls_ok hw_ok h cs"
  by (induction cs arbitrary: h) (simp_all add: hw_ok_def)

lemma calc_sysclk_44100: "calc_sysclk 44100 = 45158400"
  by (simp add: calc_sysclk_def WM5102_MAX_SYSCLK_1_def WM5102_MAX_SYSCLK_2_def)

lemma calc_sysclk_48000: "calc_sysclk 48000 = 49152000"
  by (simp add: calc_sysclk_def WM5102_MAX_SYSCLK_1_def WM5102_MAX_SYSCLK_2_def)

lemma local_card_eq:
  "local_card =
     probe_card\<lparr>calls := [enable_local_call 45158400],
                priv := probe_priv\<lparr>fll1_freq := 45158400\<rparr>\<rparr>"
  by (simp add: local_card_def rpi_cirrus_set_bias_level_def rpi_cirrus_set_fll_def hw_do_def
      hw_ok_def probe_card_def probe_priv_def RPI_CIRRUS_DEFAULT_RATE_def calc_sysclk_44100
      enable_local_call_def WM8804_CLKOUT_HZ_def)

lemmas plan_defs = hw_params_calls_def clear_calls_def enable_local_call_def
  enable_referenced_calls_def local_at_other_def spdif_rx_enable_calls_def WM8804_CLKOUT_HZ_def

lemmas hw_params_defs = rpi_cirrus_hw_params_def rpi_cirrus_set_wm8804_pll_def
      rpi_cirrus_clear_flls_def rpi_cirrus_set_fll_def hw_params_done_def hw_do_def Let_def

lemma local_at_other_cases:
  obtains (relock) "0 < sint (fll1_freq (priv w))" "fll1_freq (priv w) \<noteq> clk"
  | (off) "\<not> 0 < sint (fll1_freq (priv w))"
  | (same) "fll1_freq (priv w) = clk"
  by blast

lemma hw_params_ok:
  assumes "calls_ok hw (calls w) (hw_params_calls w wd r)"
  shows "rpi_cirrus_hw_params hw s wd r w =
     (0, w\<lparr>calls := calls w @ hw_params_calls w wd r,
           priv := (priv w)
             \<lparr>fll1_freq := (if local_at_other w (calc_sysclk r) then calc_sysclk r
                             else fll1_freq (priv w)),
              card_rate := r,
              params_set := params_set (priv w) OR push_bit (stream_no s) 1\<rparr>,
           link2_rate_min := r, link2_rate_max := r\<rparr>)"
proof (cases "32000 \<le> r")
  case True
  show ?thesis
  proof (cases w "calc_sysclk r" rule: local_at_other_cases)
    case relock
    with assms True show ?thesis by (simp add: plan_defs hw_params_defs)
  next
    case off
    with assms True show ?thesis by (simp add: plan_defs hw_params_defs)
  next
    case same
    with assms True show ?thesis by (simp add: plan_defs hw_params_defs)
  qed
next
  case False
  show ?thesis
  proof (cases w "calc_sysclk r" rule: local_at_other_cases)
    case relock
    with assms False show ?thesis by (simp add: plan_defs hw_params_defs)
  next
    case off
    with assms False show ?thesis by (simp add: plan_defs hw_params_defs)
  next
    case same
    with assms False show ?thesis by (simp add: plan_defs hw_params_defs)
  qed
qed

lemma fll_block_cases [case_names sysclk off same clear1 clear2 set_fll ok]:
  fixes hw :: hw and f clk :: u32
  obtains
    "hw h (Set_sysclk clk) \<noteq> 0"
  | "hw h (Set_sysclk clk) = 0" "\<not> 0 < sint f"
  | "hw h (Set_sysclk clk) = 0" "f = clk"
  | "hw h (Set_sysclk clk) = 0" "0 < sint f" "f \<noteq> clk"
    "hw (h @ [Set_sysclk clk]) (Set_pll WM5102_FLL1 ARIZONA_FLL_SRC_NONE 0 0) \<noteq> 0"
  | "hw h (Set_sysclk clk) = 0" "0 < sint f" "f \<noteq> clk"
    "hw (h @ [Set_sysclk clk]) (Set_pll WM5102_FLL1 ARIZONA_FLL_SRC_NONE 0 0) = 0"
    "hw (h @ [Set_sysclk clk, Set_pll WM5102_FLL1 ARIZONA_FLL_SRC_NONE 0 0])
        (Set_pll WM5102_FLL1_REFCLK ARIZONA_FLL_SRC_NONE 0 0) \<noteq> 0"
  | "hw h (Set_sysclk clk) = 0" "0 < sint f" "f \<noteq> clk"
    "hw (h @ [Set_sysclk clk]) (Set_pll WM5102_FLL1 ARIZONA_FLL_SRC_NONE 0 0) = 0"
    "hw (h @ [Set_sysclk clk, Set_pll WM5102_FLL1 ARIZONA_FLL_SRC_NONE 0 0])
        (Set_pll WM5102_FLL1_REFCLK ARIZONA_FLL_SRC_NONE 0 0) = 0"
    "hw (h @ [Set_sysclk clk, Set_pll WM5102_FLL1 ARIZONA_FLL_SRC_NONE 0 0,
              Set_pll WM5102_FLL1_REFCLK ARIZONA_FLL_SRC_NONE 0 0])
        (Set_pll WM5102_FLL1 ARIZONA_CLK_SRC_MCLK1 12000000 clk) \<noteq> 0"
  | "hw h (Set_sysclk clk) = 0" "0 < sint f" "f \<noteq> clk"
    "hw (h @ [Set_sysclk clk]) (Set_pll WM5102_FLL1 ARIZONA_FLL_SRC_NONE 0 0) = 0"
    "hw (h @ [Set_sysclk clk, Set_pll WM5102_FLL1 ARIZONA_FLL_SRC_NONE 0 0])
        (Set_pll WM5102_FLL1_REFCLK ARIZONA_FLL_SRC_NONE 0 0) = 0"
    "hw (h @ [Set_sysclk clk, Set_pll WM5102_FLL1 ARIZONA_FLL_SRC_NONE 0 0,
              Set_pll WM5102_FLL1_REFCLK ARIZONA_FLL_SRC_NONE 0 0])
        (Set_pll WM5102_FLL1 ARIZONA_CLK_SRC_MCLK1 12000000 clk) = 0"
  by blast

lemma hw_params_fail:
  assumes "\<not> calls_ok hw (calls w) (hw_params_calls w wd r)"
  shows "priv (snd (rpi_cirrus_hw_params hw s wd r w)) = priv w \<and>
         link2_rate_min (snd (rpi_cirrus_hw_params hw s wd r w)) = link2_rate_min w \<and>
         link2_rate_max (snd (rpi_cirrus_hw_params hw s wd r w)) = link2_rate_max w \<and>
         prefix (issued w (snd (rpi_cirrus_hw_params hw s wd r w))) (hw_params_calls w wd r)"
proof -
  let ?h = "calls w"
  let ?c1 = "Set_bclk_ratio (2 * wd)" and ?c2 = "Set_tdm_slot wd"
  let ?p1 = "Wm8804_set_pll (r * 256)" and ?p2 = "Wm8804_set_sysclk (r * 256)"
  consider
    (bclk) "hw ?h ?c1 \<noteq> 0"
  | (tdm) "hw ?h ?c1 = 0" "hw (?h @ [?c1]) ?c2 \<noteq> 0"
  | (pll) "hw ?h ?c1 = 0" "hw (?h @ [?c1]) ?c2 = 0" "32000 \<le> r"
      "hw (?h @ [?c1, ?c2]) ?p1 \<noteq> 0"
  | (mclk) "hw ?h ?c1 = 0" "hw (?h @ [?c1]) ?c2 = 0" "32000 \<le> r"
      "hw (?h @ [?c1, ?c2]) ?p1 = 0" "hw (?h @ [?c1, ?c2, ?p1]) ?p2 \<noteq> 0"
  | (hi) "hw ?h ?c1 = 0" "hw (?h @ [?c1]) ?c2 = 0" "32000 \<le> r"
      "hw (?h @ [?c1, ?c2]) ?p1 = 0" "hw (?h @ [?c1, ?c2, ?p1]) ?p2 = 0"
  | (lo) "hw ?h ?c1 = 0" "hw (?h @ [?c1]) ?c2 = 0" "\<not> 32000 \<le> r"
    by blast
  then show ?thesis
  proof cases
    case bclk
    then show ?thesis by (simp add: plan_defs hw_params_defs issued_def)
  next
    case tdm
    then show ?thesis by (simp add: plan_defs hw_params_defs issued_def)
  next
    case pll
    then show ?thesis by (simp add: plan_defs hw_params_defs issued_def)
  next
    case mclk
    then show ?thesis by (simp add: plan_defs hw_params_defs issued_def)
  next
    case hi
    show ?thesis
      by (rule fll_block_cases [where hw = hw and h = "?h @ [?c1, ?c2, ?p1, ?p2]"
            and clk = "calc_sysclk r" and f = "fll1_freq (priv w)"])
        (use hi assms in \<open>simp_all add: plan_defs hw_params_defs issued_def\<close>)
  next
    case lo
    show ?thesis
      by (rule fll_block_cases [where hw = hw and h = "?h @ [?c1, ?c2]"
            and clk = "calc_sysclk r" and f = "fll1_freq (priv w)"])
        (use lo assms in \<open>simp_all add: plan_defs hw_params_defs issued_def\<close>)
  qed
qed

lemmas spdif_defs = rpi_cirrus_spdif_rx_enable_event_def rpi_cirrus_set_fll_refclk_def
  rpi_cirrus_clear_flls_def hw_do_def Let_def

lemma spdif_rx_enable_ok:
  assumes "calls_ok hw (calls w) (spdif_rx_enable_calls w)"
  shows "rpi_cirrus_spdif_rx_enable_event hw SND_SOC_DAPM_POST_PMU w =
     (0, w\<lparr>calls := calls w @ spdif_rx_enable_calls w,
           priv := (priv w)\<lparr>fll1_freq := - calc_sysclk (card_rate (priv w)),
                             sync_path_enable := 1\<rparr>\<rparr>)"
  using assms by (simp add: plan_defs spdif_defs)

lemma spdif_rx_enable_fail:
  assumes "\<not> calls_ok hw (calls w) (spdif_rx_enable_calls w)"
  shows "fst (rpi_cirrus_spdif_rx_enable_event hw SND_SOC_DAPM_POST_PMU w) \<noteq> 0 \<and>
     priv (snd (rpi_cirrus_spdif_rx_enable_event hw SND_SOC_DAPM_POST_PMU w)) = priv w \<and>
     prefix (issued w (snd (rpi_cirrus_spdif_rx_enable_event hw SND_SOC_DAPM_POST_PMU w)))
       (spdif_rx_enable_calls w)"
  using assms by (simp add: plan_defs spdif_defs issued_def)

lemma local_card_reached:
  assumes "c0 \<noteq> enable_local_call 45158400"
  shows "run (hw_failing c0) [Set_bias_level True SND_SOC_BIAS_STANDBY SND_SOC_BIAS_PREPARE]
           probe_card = local_card"
  using assms
  by (simp add: local_card_eq rpi_cirrus_set_bias_level_def rpi_cirrus_set_fll_def hw_do_def
      hw_failing_def probe_card_def probe_priv_def RPI_CIRRUS_DEFAULT_RATE_def calc_sysclk_44100
      enable_local_call_def WM8804_CLKOUT_HZ_def)

subsection \<open>The clock invariant\<close>

lemma clock_inv_spdif_rx_enable_event:
  "clock_inv w \<Longrightarrow> clock_inv (snd (rpi_cirrus_spdif_rx_enable_event hw ev w))"
  by (cases ev) (auto simp: clock_inv_def rpi_cirrus_spdif_rx_enable_event_def
      rpi_cirrus_clear_flls_def rpi_cirrus_set_fll_refclk_def hw_do_def Let_def
      sint_neg_calc_sysclk split: prod.splits if_splits)

lemma clock_inv_set_bias_level:
  "clock_inv w \<Longrightarrow> clock_inv (snd (rpi_cirrus_set_bias_level hw d b l w))"
  by (cases l) (auto simp: clock_inv_def rpi_cirrus_set_bias_level_def
      rpi_cirrus_set_fll_def hw_do_def Let_def split: prod.splits if_splits)

lemma clock_inv_set_bias_level_post:
  "clock_inv w \<Longrightarrow> clock_inv (snd (rpi_cirrus_set_bias_level_post hw d l w))"
  by (cases l) (auto simp: clock_inv_def rpi_cirrus_set_bias_level_post_def
      rpi_cirrus_clear_flls_def hw_do_def Let_def split: prod.splits if_splits)

lemma clock_inv_hw_params:
  assumes "clock_inv w"
  shows "clock_inv (snd (rpi_cirrus_hw_params hw s wd r w))"
proof (cases "calls_ok hw (calls w) (hw_params_calls w wd r)")
  case True
  with assms show ?thesis
    by (auto simp: hw_params_ok clock_inv_def local_at_other_def)
next
  case False
  with assms show ?thesis
    by (simp add: hw_params_fail clock_inv_def)
qed

lemma clock_inv_hw_free:
  "clock_inv w \<Longrightarrow> clock_inv (snd (rpi_cirrus_hw_free hw s w))"
  by (simp add: clock_inv_def rpi_cirrus_hw_free_def hw_do_def Let_def)

lemma clock_inv_enter: "clock_inv w \<Longrightarrow> clock_inv (snd (enter hw e w))"
  by (cases e)
    (simp_all add: clock_inv_spdif_rx_enable_event clock_inv_set_bias_level
      clock_inv_set_bias_level_post clock_inv_hw_params clock_inv_hw_free)

lemma clock_inv_run: "clock_inv w \<Longrightarrow> clock_inv (run hw es w)"
  by (induction es arbitrary: w) (simp_all add: clock_inv_enter)

lemma clock_inv_probe: "clock_inv probe_card"
  by (simp add: clock_inv_def probe_card_def probe_priv_def)

text \<open>
  Claim C1. In every state reached from the state after probe by any sequence of the five
  entry points (routing event, bias level, bias level post, hw_params, hw_free), on any
  hardware, so with every framework call free to succeed or fail: if
  \<open>sync_path_enable\<close> is set then \<open>fll1_freq\<close>, read as a signed integer, is not positive.
\<close>

theorem sync_path_enable_fll1_freq_not_positive:
  "sync_path_enable (priv (run hw es probe_card)) \<noteq> 0 \<Longrightarrow>
   sint (fll1_freq (priv (run hw es probe_card))) \<le> 0"
  using clock_inv_run [OF clock_inv_probe, of hw es] by (simp add: clock_inv_def)

theorem sync_path_enable_fll1_freq_not_positive_witness:
  "sync_path_enable
     (priv (run hw_ok [Spdif_rx_enable_event SND_SOC_DAPM_POST_PMU] probe_card)) \<noteq> 0 \<and>
   sint (fll1_freq
     (priv (run hw_ok [Spdif_rx_enable_event SND_SOC_DAPM_POST_PMU] probe_card))) \<le> 0"
proof -
  have enabled:
    "sync_path_enable
       (priv (run hw_ok [Spdif_rx_enable_event SND_SOC_DAPM_POST_PMU] probe_card)) \<noteq> 0"
    by (simp add: rpi_cirrus_spdif_rx_enable_event_def rpi_cirrus_clear_flls_def
        rpi_cirrus_set_fll_refclk_def hw_do_def hw_ok_def Let_def)
  from enabled sync_path_enable_fll1_freq_not_positive [OF enabled]
  show ?thesis by (rule conjI)
qed

subsection \<open>The sysclk family\<close>

text \<open>
  Claim C2, as stated: \<open>calc_sysclk\<close> returns 45158400 (the 11.025 kHz family, to which
  44.1 kHz belongs) exactly for the multiples of 4000, and 49152000 otherwise. It fails at
  48000 and at 44100: the multiples of 4000 get 49152000.
\<close>

theorem calc_sysclk_family_counterexample:
  "(48000 :: u32) mod 4000 = 0 \<and> calc_sysclk 48000 \<noteq> 45158400 \<and>
   (44100 :: u32) mod 4000 \<noteq> 0 \<and> calc_sysclk 44100 \<noteq> 49152000"
  by (simp add: calc_sysclk_def WM5102_MAX_SYSCLK_1_def WM5102_MAX_SYSCLK_2_def)

text \<open>
  Claim C2, amended: for every unsigned 32-bit rate, \<open>calc_sysclk\<close> returns 49152000
  (the 4 kHz family, to which 48 kHz belongs) exactly when the rate is a multiple of
  4000, and 45158400 (the 11.025 kHz family, to which 44.1 kHz belongs) otherwise.
\<close>

theorem calc_sysclk_family:
  "calc_sysclk r = (if 4000 dvd unat r then 49152000 else 45158400)"
  by (simp add: calc_sysclk_def WM5102_MAX_SYSCLK_1_def WM5102_MAX_SYSCLK_2_def
      unat_eq_zero [symmetric] unat_mod mod_eq_0_iff_dvd)

theorem calc_sysclk_family_witness:
  "calc_sysclk 48000 = 49152000 \<and> calc_sysclk 44100 = 45158400 \<and> calc_sysclk 8000 = 49152000
   \<and> calc_sysclk 11025 = 45158400"
  using calc_sysclk_family [of 48000] calc_sysclk_family [of 44100]
    calc_sysclk_family [of 8000] calc_sysclk_family [of 11025]
  by simp

subsection \<open>Stream parameter negotiation\<close>

lemma hw_params_prefix:
  "prefix (issued w (snd (rpi_cirrus_hw_params hw s wd r w))) (hw_params_calls w wd r)"
proof (cases "calls_ok hw (calls w) (hw_params_calls w wd r)")
  case True
  then show ?thesis by (simp add: hw_params_ok issued_def)
next
  case False
  then show ?thesis by (simp add: hw_params_fail)
qed

lemma hw_params_calls_members:
  "Wm8804_set_pll (r * 256) \<in> set (hw_params_calls w wd r) \<longleftrightarrow> 32000 \<le> r"
  "Set_sysclk (calc_sysclk r) \<in> set (hw_params_calls w wd r)"
  "suffix (clear_calls @ [enable_local_call (calc_sysclk r)]) (hw_params_calls w wd r)
     \<longleftrightarrow> local_at_other w (calc_sysclk r)"
  by (simp_all add: hw_params_calls_def clear_calls_def enable_local_call_def suffix_to_prefix)

lemma hw_params_twice:
  assumes "fll1_freq (priv w) = 45158400"
  shows "issued w (snd (rpi_cirrus_hw_params hw_ok s wd 44100 w)) =
       [Set_bclk_ratio (2 * wd), Set_tdm_slot wd, Wm8804_set_pll 11289600,
        Wm8804_set_sysclk 11289600, Set_sysclk 45158400] \<and>
     fll1_freq (priv (snd (rpi_cirrus_hw_params hw_ok s wd 44100 w))) = 45158400 \<and>
     card_rate (priv (snd (rpi_cirrus_hw_params hw_ok s wd 44100 w))) = 44100 \<and>
     issued (snd (rpi_cirrus_hw_params hw_ok s wd 44100 w))
       (snd (rpi_cirrus_hw_params hw_ok s' wd' 48000
          (snd (rpi_cirrus_hw_params hw_ok s wd 44100 w)))) =
       [Set_bclk_ratio (2 * wd'), Set_tdm_slot wd', Wm8804_set_pll 12288000,
        Wm8804_set_sysclk 12288000, Set_sysclk 49152000]
       @ clear_calls @ [enable_local_call 49152000] \<and>
     fll1_freq (priv (snd (rpi_cirrus_hw_params hw_ok s' wd' 48000
          (snd (rpi_cirrus_hw_params hw_ok s wd 44100 w))))) = 49152000 \<and>
     card_rate (priv (snd (rpi_cirrus_hw_params hw_ok s' wd' 48000
          (snd (rpi_cirrus_hw_params hw_ok s wd 44100 w))))) = 48000"
  using assms
  by (simp add: hw_params_ok [OF calls_ok_hw_ok] issued_def hw_params_calls_def
      local_at_other_def calc_sysclk_44100 calc_sysclk_48000)

text \<open>
  Claim C3. A call of hw_params at rate \<open>r\<close> issues an initial segment of the list
  \<open>hw_params_calls\<close>, and all of it unless a call fails: the bit clock ratio and the
  TDM slots, the WM8804 PLL and MCLK at \<open>256 * r\<close> (32-bit arithmetic) exactly when
  \<open>32000 \<le> r\<close> and whatever the FLL state, the WM5102 system clock on FLL1 at
  \<open>calc_sysclk r\<close>, and \<open>clear()\<close> followed by \<open>enable_local (calc_sysclk r)\<close> exactly
  when \<open>fll1_freq\<close> at entry is positive and differs from \<open>calc_sysclk r\<close>. When no call
  fails the whole list is issued, the result is 0, \<open>card_rate\<close> becomes \<open>r\<close>, the bit of
  the stream's direction is set in \<open>params_set\<close>, and \<open>fll1_freq\<close> becomes
  \<open>calc_sysclk r\<close> if the FLL was relocked. In particular, with the local FLL running at
  45158400, negotiating 44100 Hz leaves the FLL alone, and negotiating 48000 Hz next
  issues \<open>clear()\<close> and then \<open>enable_local 49152000\<close>.
\<close>

theorem hw_params_clocking:
  fixes hw :: hw and w :: snd_soc_card and s sa sb :: pcm_stream and wd r wda wdb :: u32
  defines "R \<equiv> rpi_cirrus_hw_params hw s wd r w"
    and "w1 \<equiv> snd (rpi_cirrus_hw_params hw_ok sa wda 44100 w)"
  defines "w2 \<equiv> snd (rpi_cirrus_hw_params hw_ok sb wdb 48000 w1)"
  shows
    "prefix (issued w (snd R)) (hw_params_calls w wd r) \<and>
     (calls_ok hw (calls w) (hw_params_calls w wd r) \<longrightarrow>
        R = (0, w\<lparr>calls := calls w @ hw_params_calls w wd r,
                   priv := (priv w)
                     \<lparr>fll1_freq := (if local_at_other w (calc_sysclk r) then calc_sysclk r
                                     else fll1_freq (priv w)),
                      card_rate := r,
                      params_set := params_set (priv w) OR push_bit (stream_no s) 1\<rparr>,
                   link2_rate_min := r, link2_rate_max := r\<rparr>) \<and>
        (Wm8804_set_pll (r * 256) \<in> set (issued w (snd R)) \<longleftrightarrow> 32000 \<le> r) \<and>
        Set_sysclk (calc_sysclk r) \<in> set (issued w (snd R)) \<and>
        (suffix (clear_calls @ [enable_local_call (calc_sysclk r)]) (issued w (snd R))
           \<longleftrightarrow> 0 < sint (fll1_freq (priv w)) \<and> fll1_freq (priv w) \<noteq> calc_sysclk r)) \<and>
     (fll1_freq (priv w) = 45158400 \<longrightarrow>
        issued w w1 =
          [Set_bclk_ratio (2 * wda), Set_tdm_slot wda, Wm8804_set_pll 11289600,
           Wm8804_set_sysclk 11289600, Set_sysclk 45158400] \<and>
        fll1_freq (priv w1) = 45158400 \<and> card_rate (priv w1) = 44100 \<and>
        issued w1 w2 =
          [Set_bclk_ratio (2 * wdb), Set_tdm_slot wdb, Wm8804_set_pll 12288000,
           Wm8804_set_sysclk 12288000, Set_sysclk 49152000]
          @ clear_calls @ [enable_local_call 49152000] \<and>
        fll1_freq (priv w2) = 49152000 \<and> card_rate (priv w2) = 48000)"
proof (intro conjI impI)
  show "prefix (issued w (snd R)) (hw_params_calls w wd r)"
    unfolding R_def by (rule hw_params_prefix)
next
  assume ok: "calls_ok hw (calls w) (hw_params_calls w wd r)"
  then have iss: "issued w (snd R) = hw_params_calls w wd r"
    unfolding R_def by (simp add: hw_params_ok issued_def)
  from ok show "R = (0, w\<lparr>calls := calls w @ hw_params_calls w wd r,
                   priv := (priv w)
                     \<lparr>fll1_freq := (if local_at_other w (calc_sysclk r) then calc_sysclk r
                                     else fll1_freq (priv w)),
                      card_rate := r,
                      params_set := params_set (priv w) OR push_bit (stream_no s) 1\<rparr>,
                   link2_rate_min := r, link2_rate_max := r\<rparr>)"
    unfolding R_def by (rule hw_params_ok)
  show "Wm8804_set_pll (r * 256) \<in> set (issued w (snd R)) \<longleftrightarrow> 32000 \<le> r"
    by (simp only: iss hw_params_calls_members)
  show "Set_sysclk (calc_sysclk r) \<in> set (issued w (snd R))"
    by (simp only: iss hw_params_calls_members)
  show "suffix (clear_calls @ [enable_local_call (calc_sysclk r)]) (issued w (snd R))
           \<longleftrightarrow> 0 < sint (fll1_freq (priv w)) \<and> fll1_freq (priv w) \<noteq> calc_sysclk r"
    by (simp only: iss hw_params_calls_members local_at_other_def)
next
  assume "fll1_freq (priv w) = 45158400"
  from hw_params_twice [OF this, of sa wda sb wdb]
  show "issued w w1 =
          [Set_bclk_ratio (2 * wda), Set_tdm_slot wda, Wm8804_set_pll 11289600,
           Wm8804_set_sysclk 11289600, Set_sysclk 45158400]"
    and "fll1_freq (priv w1) = 45158400" and "card_rate (priv w1) = 44100"
    and "issued w1 w2 =
          [Set_bclk_ratio (2 * wdb), Set_tdm_slot wdb, Wm8804_set_pll 12288000,
           Wm8804_set_sysclk 12288000, Set_sysclk 49152000]
          @ clear_calls @ [enable_local_call 49152000]"
    and "fll1_freq (priv w2) = 49152000" and "card_rate (priv w2) = 48000"
    unfolding w1_def w2_def by blast+
qed

theorem hw_params_clocking_witness:
  "calls_ok hw_ok (calls local_card) (hw_params_calls local_card 16 48000) \<and>
   fll1_freq (priv local_card) = 45158400 \<and>
   rpi_cirrus_hw_params hw_ok SNDRV_PCM_STREAM_PLAYBACK 16 48000 local_card =
     (0, local_card
           \<lparr>calls := [enable_local_call 45158400, Set_bclk_ratio 32, Set_tdm_slot 16,
                      Wm8804_set_pll 12288000, Wm8804_set_sysclk 12288000, Set_sysclk 49152000,
                      Set_pll WM5102_FLL1 ARIZONA_FLL_SRC_NONE 0 0,
                      Set_pll WM5102_FLL1_REFCLK ARIZONA_FLL_SRC_NONE 0 0,
                      enable_local_call 49152000],
            priv := (priv local_card)\<lparr>fll1_freq := 49152000, card_rate := 48000, params_set := 1\<rparr>,
            link2_rate_min := 48000, link2_rate_max := 48000\<rparr>) \<and>
   card_rate
     (priv (snd (rpi_cirrus_hw_params hw_ok SNDRV_PCM_STREAM_CAPTURE 24 48000
        (snd (rpi_cirrus_hw_params hw_ok SNDRV_PCM_STREAM_PLAYBACK 16 44100 local_card))))) = 48000"
proof -
  have ok: "calls_ok hw_ok (calls local_card) (hw_params_calls local_card 16 48000)"
    by (rule calls_ok_hw_ok)
  have running: "fll1_freq (priv local_card) = 45158400"
    by (simp add: local_card_eq)
  note inst = hw_params_clocking [where hw = hw_ok and w = local_card
      and s = SNDRV_PCM_STREAM_PLAYBACK and wd = 16 and r = 48000
      and sa = SNDRV_PCM_STREAM_PLAYBACK and wda = 16
      and sb = SNDRV_PCM_STREAM_CAPTURE and wdb = 24]
  from inst ok have
    "rpi_cirrus_hw_params hw_ok SNDRV_PCM_STREAM_PLAYBACK 16 48000 local_card =
       (0, local_card\<lparr>calls := calls local_card @ hw_params_calls local_card 16 48000,
             priv := (priv local_card)
               \<lparr>fll1_freq := (if local_at_other local_card (calc_sysclk 48000)
                               then calc_sysclk 48000 else fll1_freq (priv local_card)),
                card_rate := 48000,
                params_set := params_set (priv local_card)
                   OR push_bit (stream_no SNDRV_PCM_STREAM_PLAYBACK) 1\<rparr>,
             link2_rate_min := 48000, link2_rate_max := 48000\<rparr>)"
    by blast
  moreover from inst running have
    "card_rate
       (priv (snd (rpi_cirrus_hw_params hw_ok SNDRV_PCM_STREAM_CAPTURE 24 48000
          (snd (rpi_cirrus_hw_params hw_ok SNDRV_PCM_STREAM_PLAYBACK 16 44100 local_card))))) =
     48000"
    by blast
  ultimately show ?thesis
    using ok running
    by (simp add: local_card_eq hw_params_calls_def local_at_other_def calc_sysclk_48000
        clear_calls_def enable_local_call_def probe_card_def probe_priv_def)
qed

subsection \<open>Clearing the FLLs\<close>

text \<open>
  Claim C4, as stated: whenever both sub-calls of \<open>clear()\<close> succeed, the clock state
  goes to OFF (\<open>fll1_freq = 0\<close>). It fails wherever \<open>clear()\<close> is not the whole
  transition. With the local FLL running at 45158400, hw_params at 48000 on a hardware
  where both sub-calls succeed and the following \<open>enable_local 49152000\<close> fails leaves
  \<open>fll1_freq\<close> at 45158400; \<open>rpi_cirrus_clear_flls\<close> on its own succeeds and leaves
  \<open>fll1_freq\<close> at 45158400; and the power-up event, with every call succeeding, goes
  from 45158400 to -45158400.
\<close>

theorem clear_success_not_off_counterexample:
  "run (hw_failing (enable_local_call 49152000))
       [Set_bias_level True SND_SOC_BIAS_STANDBY SND_SOC_BIAS_PREPARE] probe_card = local_card \<and>
   calls_ok (hw_failing (enable_local_call 49152000))
       [enable_local_call 45158400, Set_bclk_ratio 32, Set_tdm_slot 16,
        Wm8804_set_pll 12288000, Wm8804_set_sysclk 12288000, Set_sysclk 49152000]
       clear_calls \<and>
   calls (snd (rpi_cirrus_hw_params (hw_failing (enable_local_call 49152000))
       SNDRV_PCM_STREAM_PLAYBACK 16 48000 local_card)) =
     [enable_local_call 45158400, Set_bclk_ratio 32, Set_tdm_slot 16,
      Wm8804_set_pll 12288000, Wm8804_set_sysclk 12288000, Set_sysclk 49152000]
     @ clear_calls @ [enable_local_call 49152000] \<and>
   fll1_freq (priv (snd (rpi_cirrus_hw_params (hw_failing (enable_local_call 49152000))
       SNDRV_PCM_STREAM_PLAYBACK 16 48000 local_card))) = 45158400 \<and>
   fst (rpi_cirrus_clear_flls hw_ok local_card) = 0 \<and>
   fll1_freq (priv (snd (rpi_cirrus_clear_flls hw_ok local_card))) = 45158400 \<and>
   calls_ok hw_ok (calls local_card) clear_calls \<and>
   fll1_freq (priv (snd (rpi_cirrus_spdif_rx_enable_event hw_ok SND_SOC_DAPM_POST_PMU
       local_card))) = - 45158400"
proof -
  have "run (hw_failing (enable_local_call 49152000))
       [Set_bias_level True SND_SOC_BIAS_STANDBY SND_SOC_BIAS_PREPARE] probe_card = local_card"
    by (rule local_card_reached) (simp add: enable_local_call_def)
  then show ?thesis
    by (simp add: hw_params_defs rpi_cirrus_spdif_rx_enable_event_def
        rpi_cirrus_set_fll_refclk_def hw_failing_def hw_ok_def local_card_eq probe_card_def
        probe_priv_def RPI_CIRRUS_DEFAULT_RATE_def calc_sysclk_48000 calc_sysclk_44100
        clear_calls_def enable_local_call_def WM8804_CLKOUT_HZ_def)
qed

text \<open>
  Claim C4, amended: \<open>rpi_cirrus_clear_flls\<close> always issues both disabling calls, FLL1
  and then FLL1_REFCLK, the second one also when the first has failed; it returns the
  first non-zero result, so it reports success exactly when both calls succeed; and it
  does not change the private data itself. In the standby transition of the WM5102's
  bias level, which consists of this one call, \<open>fll1_freq\<close> becomes 0 when both calls
  succeed, and the private data is unchanged when one of them fails.
\<close>

theorem clear_flls_best_effort:
  fixes hw :: hw and w :: snd_soc_card
  defines "ret1 \<equiv> hw (calls w) (Set_pll WM5102_FLL1 ARIZONA_FLL_SRC_NONE 0 0)"
    and "ret2 \<equiv> hw (calls w @ [Set_pll WM5102_FLL1 ARIZONA_FLL_SRC_NONE 0 0])
                   (Set_pll WM5102_FLL1_REFCLK ARIZONA_FLL_SRC_NONE 0 0)"
  shows
    "snd (rpi_cirrus_clear_flls hw w) =
       w\<lparr>calls := calls w @ [Set_pll WM5102_FLL1 ARIZONA_FLL_SRC_NONE 0 0,
                               Set_pll WM5102_FLL1_REFCLK ARIZONA_FLL_SRC_NONE 0 0]\<rparr> \<and>
     fst (rpi_cirrus_clear_flls hw w) = (if ret1 \<noteq> 0 then ret1 else ret2) \<and>
     (fst (rpi_cirrus_clear_flls hw w) = 0 \<longleftrightarrow> ret1 = 0 \<and> ret2 = 0) \<and>
     rpi_cirrus_set_bias_level_post hw True SND_SOC_BIAS_STANDBY w =
       (0, w\<lparr>calls := calls w @ [Set_pll WM5102_FLL1 ARIZONA_FLL_SRC_NONE 0 0,
                                   Set_pll WM5102_FLL1_REFCLK ARIZONA_FLL_SRC_NONE 0 0],
             priv := (priv w)\<lparr>fll1_freq := (if ret1 = 0 \<and> ret2 = 0 then 0
                                               else fll1_freq (priv w))\<rparr>\<rparr>)"
  by (simp add: ret1_def ret2_def rpi_cirrus_clear_flls_def rpi_cirrus_set_bias_level_post_def
      hw_do_def Let_def)

theorem clear_flls_best_effort_witness:
  "rpi_cirrus_set_bias_level_post hw_ok True SND_SOC_BIAS_STANDBY local_card =
     (0, local_card
           \<lparr>calls := [enable_local_call 45158400,
                      Set_pll WM5102_FLL1 ARIZONA_FLL_SRC_NONE 0 0,
                      Set_pll WM5102_FLL1_REFCLK ARIZONA_FLL_SRC_NONE 0 0],
            priv := (priv local_card)\<lparr>fll1_freq := 0\<rparr>\<rparr>) \<and>
   fst (rpi_cirrus_clear_flls (hw_failing (Set_pll WM5102_FLL1 ARIZONA_FLL_SRC_NONE 0 0))
          local_card) = - 22 \<and>
   rpi_cirrus_set_bias_level_post (hw_failing (Set_pll WM5102_FLL1 ARIZONA_FLL_SRC_NONE 0 0))
       True SND_SOC_BIAS_STANDBY local_card =
     (0, local_card
           \<lparr>calls := [enable_local_call 45158400,
                      Set_pll WM5102_FLL1 ARIZONA_FLL_SRC_NONE 0 0,
                      Set_pll WM5102_FLL1_REFCLK ARIZONA_FLL_SRC_NONE 0 0]\<rparr>)"
  using clear_flls_best_effort [of hw_ok local_card]
    clear_flls_best_effort [of "hw_failing (Set_pll WM5102_FLL1 ARIZONA_FLL_SRC_NONE 0 0)" local_card]
  by (simp add: hw_ok_def hw_failing_def local_card_eq probe_card_def)

subsection \<open>The routing event\<close>

text \<open>
  Claim C5. On the power-up event the handler issues \<open>clear()\<close>, then sets FLL1_REFCLK
  from MCLK1 (12 MHz) to \<open>calc_sysclk card_rate\<close>, then sets FLL1 from the AIF2 bit clock
  at \<open>64 * card_rate\<close> (32-bit arithmetic) to \<open>calc_sysclk card_rate\<close>; it issues an
  initial segment of these calls, and all of them unless one fails. When all succeed it stores
  \<open>fll1_freq = - calc_sysclk card_rate\<close> and \<open>sync_path_enable = 1\<close> and returns 0; when
  one fails it returns a non-zero result and leaves the private data unchanged. On the
  power-down event it clears \<open>sync_path_enable\<close> and does nothing else: no call is
  issued and every other field keeps its value.
\<close>

theorem spdif_rx_enable_event_transitions:
  fixes hw :: hw and w :: snd_soc_card
  defines "R \<equiv> rpi_cirrus_spdif_rx_enable_event hw SND_SOC_DAPM_POST_PMU w"
    and "clk_freq \<equiv> calc_sysclk (card_rate (priv w))"
  shows
    "spdif_rx_enable_calls w =
       [Set_pll WM5102_FLL1 ARIZONA_FLL_SRC_NONE 0 0,
        Set_pll WM5102_FLL1_REFCLK ARIZONA_FLL_SRC_NONE 0 0,
        Set_pll WM5102_FLL1_REFCLK ARIZONA_CLK_SRC_MCLK1 12000000 clk_freq,
        Set_pll WM5102_FLL1 ARIZONA_CLK_SRC_AIF2BCLK (64 * card_rate (priv w)) clk_freq] \<and>
     prefix (issued w (snd R)) (spdif_rx_enable_calls w) \<and>
     (calls_ok hw (calls w) (spdif_rx_enable_calls w) \<longrightarrow>
        R = (0, w\<lparr>calls := calls w @ spdif_rx_enable_calls w,
                   priv := (priv w)\<lparr>fll1_freq := - clk_freq, sync_path_enable := 1\<rparr>\<rparr>)) \<and>
     (\<not> calls_ok hw (calls w) (spdif_rx_enable_calls w) \<longrightarrow>
        fst R \<noteq> 0 \<and> priv (snd R) = priv w) \<and>
     rpi_cirrus_spdif_rx_enable_event hw SND_SOC_DAPM_POST_PMD w =
       (0, w\<lparr>priv := (priv w)\<lparr>sync_path_enable := 0\<rparr>\<rparr>)"
proof (intro conjI impI)
  show "spdif_rx_enable_calls w =
       [Set_pll WM5102_FLL1 ARIZONA_FLL_SRC_NONE 0 0,
        Set_pll WM5102_FLL1_REFCLK ARIZONA_FLL_SRC_NONE 0 0,
        Set_pll WM5102_FLL1_REFCLK ARIZONA_CLK_SRC_MCLK1 12000000 clk_freq,
        Set_pll WM5102_FLL1 ARIZONA_CLK_SRC_AIF2BCLK (64 * card_rate (priv w)) clk_freq]"
    by (simp add: plan_defs clk_freq_def)
  show "prefix (issued w (snd R)) (spdif_rx_enable_calls w)"
  proof (cases "calls_ok hw (calls w) (spdif_rx_enable_calls w)")
    case True
    then show ?thesis unfolding R_def by (simp add: spdif_rx_enable_ok issued_def)
  next
    case False
    then show ?thesis unfolding R_def by (simp add: spdif_rx_enable_fail)
  qed
  show "rpi_cirrus_spdif_rx_enable_event hw SND_SOC_DAPM_POST_PMD w =
       (0, w\<lparr>priv := (priv w)\<lparr>sync_path_enable := 0\<rparr>\<rparr>)"
    by (simp add: rpi_cirrus_spdif_rx_enable_event_def)
next
  assume "calls_ok hw (calls w) (spdif_rx_enable_calls w)"
  then show "R = (0, w\<lparr>calls := calls w @ spdif_rx_enable_calls w,
                   priv := (priv w)\<lparr>fll1_freq := - clk_freq, sync_path_enable := 1\<rparr>\<rparr>)"
    unfolding R_def clk_freq_def by (rule spdif_rx_enable_ok)
next
  assume "\<not> calls_ok hw (calls w) (spdif_rx_enable_calls w)"
  then show "fst R \<noteq> 0" and "priv (snd R) = priv w"
    unfolding R_def by (simp_all add: spdif_rx_enable_fail)
qed

theorem spdif_rx_enable_event_transitions_witness:
  "calls_ok hw_ok (calls probe_card) (spdif_rx_enable_calls probe_card) \<and>
   rpi_cirrus_spdif_rx_enable_event hw_ok SND_SOC_DAPM_POST_PMU probe_card =
     (0, probe_card
           \<lparr>calls := [Set_pll WM5102_FLL1 ARIZONA_FLL_SRC_NONE 0 0,
                      Set_pll WM5102_FLL1_REFCLK ARIZONA_FLL_SRC_NONE 0 0,
                      Set_pll WM5102_FLL1_REFCLK ARIZONA_CLK_SRC_MCLK1 12000000 45158400,
                      Set_pll WM5102_FLL1 ARIZONA_CLK_SRC_AIF2BCLK 2822400 45158400],
            priv := probe_priv\<lparr>fll1_freq := - 45158400, sync_path_enable := 1\<rparr>\<rparr>) \<and>
   \<not> calls_ok (hw_failing (Set_pll WM5102_FLL1 ARIZONA_CLK_SRC_AIF2BCLK 2822400 45158400))
       (calls probe_card) (spdif_rx_enable_calls probe_card) \<and>
   priv (snd (rpi_cirrus_spdif_rx_enable_event
       (hw_failing (Set_pll WM5102_FLL1 ARIZONA_CLK_SRC_AIF2BCLK 2822400 45158400))
       SND_SOC_DAPM_POST_PMU probe_card)) = probe_priv"
proof -
  let ?bad = "hw_failing (Set_pll WM5102_FLL1 ARIZONA_CLK_SRC_AIF2BCLK 2822400 45158400)"
  have ok: "calls_ok hw_ok (calls probe_card) (spdif_rx_enable_calls probe_card)"
    by (rule calls_ok_hw_ok)
  have bad: "\<not> calls_ok ?bad (calls probe_card) (spdif_rx_enable_calls probe_card)"
    by (simp add: plan_defs hw_failing_def probe_card_def probe_priv_def
        RPI_CIRRUS_DEFAULT_RATE_def calc_sysclk_44100)
  from spdif_rx_enable_event_transitions [of probe_card hw_ok] ok
    spdif_rx_enable_event_transitions [of probe_card ?bad] bad
  show ?thesis
    by (simp add: probe_card_def probe_priv_def RPI_CIRRUS_DEFAULT_RATE_def calc_sysclk_44100)
qed

subsection \<open>Releasing stream parameters\<close>

lemma hw_free_eq:
  "rpi_cirrus_hw_free hw s w =
     (0, w\<lparr>priv := (priv w)
                 \<lparr>params_set := params_set (priv w) AND NOT (push_bit (stream_no s) 1)\<rparr>,
            calls := calls w @
              (if params_set (priv w) AND NOT (push_bit (stream_no s) 1) = 0
                  \<and> params_set (priv w) \<noteq> 0
               then [Set_sysclk 0] else [])\<rparr>)"
  by (simp add: rpi_cirrus_hw_free_def hw_do_def Let_def)

lemma hw_params_both_streams:
  assumes "params_set (priv w) = 0"
  shows "params_set (priv (run hw_ok
           [Hw_params SNDRV_PCM_STREAM_PLAYBACK wda ra,
            Hw_params SNDRV_PCM_STREAM_CAPTURE wdb rb] w)) = 3"
  using assms by (simp add: hw_params_ok [OF calls_ok_hw_ok])

lemma hw_free_both_streams:
  assumes "params_set (priv w) = 3"
  shows "issued w (snd (rpi_cirrus_hw_free hw SNDRV_PCM_STREAM_PLAYBACK w)) = [] \<and>
     issued (snd (rpi_cirrus_hw_free hw SNDRV_PCM_STREAM_PLAYBACK w))
       (snd (rpi_cirrus_hw_free hw SNDRV_PCM_STREAM_CAPTURE
          (snd (rpi_cirrus_hw_free hw SNDRV_PCM_STREAM_PLAYBACK w)))) = [Set_sysclk 0] \<and>
     params_set (priv (snd (rpi_cirrus_hw_free hw SNDRV_PCM_STREAM_CAPTURE
          (snd (rpi_cirrus_hw_free hw SNDRV_PCM_STREAM_PLAYBACK w))))) = 0"
  using assms by (simp add: hw_free_eq issued_def)

text \<open>
  Claim C6. \<open>rpi_cirrus_hw_free\<close> clears the bit of the stream's direction in
  \<open>params_set\<close> and issues one call setting the system clock to frequency 0 exactly when
  that takes \<open>params_set\<close> from non-zero to zero; it returns 0 and changes no other
  field, in particular not \<open>fll1_freq\<close>, \<open>card_rate\<close> or \<open>sync_path_enable\<close>. So after
  successful hw_params calls for playback and for capture on a card with no stream open,
  freeing playback issues no call, and freeing capture then issues the call once.
\<close>

theorem hw_free_sysclk_gate:
  fixes hw hwf :: hw and w v :: snd_soc_card and s :: pcm_stream and wda ra wdb rb :: u32
  defines "R \<equiv> rpi_cirrus_hw_free hw s w"
    and "opened \<equiv> run hw_ok [Hw_params SNDRV_PCM_STREAM_PLAYBACK wda ra,
                                Hw_params SNDRV_PCM_STREAM_CAPTURE wdb rb] v"
  defines "freed_playback \<equiv> snd (rpi_cirrus_hw_free hwf SNDRV_PCM_STREAM_PLAYBACK opened)"
  defines "freed_capture \<equiv> snd (rpi_cirrus_hw_free hwf SNDRV_PCM_STREAM_CAPTURE freed_playback)"
  shows
    "R = (0, w\<lparr>priv := (priv w)
                 \<lparr>params_set := params_set (priv w) AND NOT (push_bit (stream_no s) 1)\<rparr>,
              calls := calls w @
                (if params_set (priv w) AND NOT (push_bit (stream_no s) 1) = 0
                    \<and> params_set (priv w) \<noteq> 0
                 then [Set_sysclk 0] else [])\<rparr>) \<and>
     fll1_freq (priv (snd R)) = fll1_freq (priv w) \<and>
     card_rate (priv (snd R)) = card_rate (priv w) \<and>
     sync_path_enable (priv (snd R)) = sync_path_enable (priv w) \<and>
     (params_set (priv v) = 0 \<longrightarrow>
        params_set (priv opened) = 3 \<and>
        issued opened freed_playback = [] \<and>
        issued freed_playback freed_capture = [Set_sysclk 0] \<and>
        params_set (priv freed_capture) = 0)"
proof (intro conjI impI)
  show "R = (0, w\<lparr>priv := (priv w)
                 \<lparr>params_set := params_set (priv w) AND NOT (push_bit (stream_no s) 1)\<rparr>,
              calls := calls w @
                (if params_set (priv w) AND NOT (push_bit (stream_no s) 1) = 0
                    \<and> params_set (priv w) \<noteq> 0
                 then [Set_sysclk 0] else [])\<rparr>)"
    unfolding R_def by (rule hw_free_eq)
  show "fll1_freq (priv (snd R)) = fll1_freq (priv w)"
    and "card_rate (priv (snd R)) = card_rate (priv w)"
    and "sync_path_enable (priv (snd R)) = sync_path_enable (priv w)"
    unfolding R_def by (simp_all add: hw_free_eq)
next
  assume "params_set (priv v) = 0"
  then show both: "params_set (priv opened) = 3"
    unfolding opened_def by (rule hw_params_both_streams)
  from hw_free_both_streams [OF both, of hwf]
  show "issued opened freed_playback = []"
    and "issued freed_playback freed_capture = [Set_sysclk 0]"
    and "params_set (priv freed_capture) = 0"
    unfolding freed_playback_def freed_capture_def by blast+
qed

theorem hw_free_sysclk_gate_witness:
  "params_set (priv probe_card) = 0 \<and>
   issued
     (run hw_ok [Hw_params SNDRV_PCM_STREAM_PLAYBACK 16 44100,
                 Hw_params SNDRV_PCM_STREAM_CAPTURE 16 44100] probe_card)
     (run hw_ok [Hw_params SNDRV_PCM_STREAM_PLAYBACK 16 44100,
                 Hw_params SNDRV_PCM_STREAM_CAPTURE 16 44100,
                 Hw_free SNDRV_PCM_STREAM_PLAYBACK] probe_card) = [] \<and>
   issued
     (run hw_ok [Hw_params SNDRV_PCM_STREAM_PLAYBACK 16 44100,
                 Hw_params SNDRV_PCM_STREAM_CAPTURE 16 44100,
                 Hw_free SNDRV_PCM_STREAM_PLAYBACK] probe_card)
     (run hw_ok [Hw_params SNDRV_PCM_STREAM_PLAYBACK 16 44100,
                 Hw_params SNDRV_PCM_STREAM_CAPTURE 16 44100,
                 Hw_free SNDRV_PCM_STREAM_PLAYBACK,
                 Hw_free SNDRV_PCM_STREAM_CAPTURE] probe_card) = [Set_sysclk 0]"
proof -
  have closed: "params_set (priv probe_card) = 0"
    by (simp add: probe_card_def probe_priv_def)
  from hw_free_sysclk_gate [where v = probe_card and hwf = hw_ok and wda = 16 and ra = 44100
      and wdb = 16 and rb = 44100 and hw = hw_ok and w = probe_card
      and s = SNDRV_PCM_STREAM_PLAYBACK] closed
  show ?thesis by simp
qed

subsection \<open>The prepare transition of the bias level\<close>

text \<open>
  Claim C7, as stated: the prepare transition issues \<open>enable_local\<close> only if the current
  \<open>fll1_freq\<close> differs from the target, so a second prepare in a row issues no hardware
  call. It fails on the card that one successful prepare transition leaves behind:
  \<open>fll1_freq\<close> is the target frequency, and a second prepare transition (the previous
  bias level being PREPARE, not ON) issues the call again.
\<close>

theorem prepare_when_local_counterexample:
  "sync_path_enable (priv local_card) = 0 \<and>
   fll1_freq (priv local_card) = calc_sysclk (card_rate (priv local_card)) \<and>
   issued local_card
     (snd (rpi_cirrus_set_bias_level hw_ok True SND_SOC_BIAS_PREPARE SND_SOC_BIAS_PREPARE
        local_card)) = [enable_local_call 45158400]"
  by (simp add: local_card_eq probe_card_def probe_priv_def RPI_CIRRUS_DEFAULT_RATE_def
      calc_sysclk_44100 issued_def rpi_cirrus_set_bias_level_def rpi_cirrus_set_fll_def
      hw_do_def hw_ok_def Let_def enable_local_call_def WM8804_CLKOUT_HZ_def)

text \<open>
  Claim C7, amended: on the WM5102's power domain, with the previous bias level not ON
  and \<open>sync_path_enable\<close> clear, the prepare transition always issues
  \<open>enable_local (calc_sysclk card_rate)\<close>, whatever \<open>fll1_freq\<close> is, returns the result of
  that call, and stores the target in \<open>fll1_freq\<close> when the call succeeds. A prepare
  transition is a no-op (no call, no state change, result 0) when the previous bias
  level is already ON, when \<open>sync_path_enable\<close> is set, and on every other power
  domain.
\<close>

theorem set_bias_level_prepare:
  fixes hw :: hw and w :: snd_soc_card and b l :: snd_soc_bias_level
  defines "clk_freq \<equiv> calc_sysclk (card_rate (priv w))"
  defines "ret \<equiv> hw (calls w) (enable_local_call clk_freq)"
  shows
    "(b \<noteq> SND_SOC_BIAS_ON \<and> sync_path_enable (priv w) = 0 \<longrightarrow>
        rpi_cirrus_set_bias_level hw True b SND_SOC_BIAS_PREPARE w =
          (ret, w\<lparr>calls := calls w @ [enable_local_call clk_freq],
                   priv := (priv w)\<lparr>fll1_freq := (if ret = 0 then clk_freq
                                                     else fll1_freq (priv w))\<rparr>\<rparr>)) \<and>
     rpi_cirrus_set_bias_level hw True SND_SOC_BIAS_ON SND_SOC_BIAS_PREPARE w = (0, w) \<and>
     (sync_path_enable (priv w) \<noteq> 0 \<longrightarrow>
        rpi_cirrus_set_bias_level hw True b SND_SOC_BIAS_PREPARE w = (0, w)) \<and>
     rpi_cirrus_set_bias_level hw False b l w = (0, w)"
  by (simp add: clk_freq_def ret_def rpi_cirrus_set_bias_level_def rpi_cirrus_set_fll_def
      hw_do_def Let_def enable_local_call_def WM8804_CLKOUT_HZ_def)

theorem set_bias_level_prepare_witness:
  "SND_SOC_BIAS_PREPARE \<noteq> SND_SOC_BIAS_ON \<and> sync_path_enable (priv local_card) = 0 \<and>
   rpi_cirrus_set_bias_level hw_ok True SND_SOC_BIAS_PREPARE SND_SOC_BIAS_PREPARE local_card =
     (0, local_card\<lparr>calls := [enable_local_call 45158400, enable_local_call 45158400]\<rparr>) \<and>
   sync_path_enable
     (priv (run hw_ok [Spdif_rx_enable_event SND_SOC_DAPM_POST_PMU] probe_card)) \<noteq> 0 \<and>
   rpi_cirrus_set_bias_level hw_ok True SND_SOC_BIAS_STANDBY SND_SOC_BIAS_PREPARE
       (run hw_ok [Spdif_rx_enable_event SND_SOC_DAPM_POST_PMU] probe_card) =
     (0, run hw_ok [Spdif_rx_enable_event SND_SOC_DAPM_POST_PMU] probe_card)"
proof -
  have a: "SND_SOC_BIAS_PREPARE \<noteq> SND_SOC_BIAS_ON \<and> sync_path_enable (priv local_card) = 0"
    by (simp add: local_card_eq probe_card_def probe_priv_def)
  have b: "sync_path_enable
     (priv (run hw_ok [Spdif_rx_enable_event SND_SOC_DAPM_POST_PMU] probe_card)) \<noteq> 0"
    by (simp add: spdif_rx_enable_ok [OF calls_ok_hw_ok])
  from a b
    set_bias_level_prepare [where hw = hw_ok and w = local_card and b = SND_SOC_BIAS_PREPARE]
    set_bias_level_prepare [where hw = hw_ok and b = SND_SOC_BIAS_STANDBY
      and w = "run hw_ok [Spdif_rx_enable_event SND_SOC_DAPM_POST_PMU] probe_card"]
  show ?thesis
    by (simp add: local_card_eq probe_card_def probe_priv_def hw_ok_def
        RPI_CIRRUS_DEFAULT_RATE_def calc_sysclk_44100)
qed

subsection \<open>Failed clock changes\<close>

text \<open>
  Claim C8, as stated: when a clock change fails partway, in particular when \<open>clear()\<close>
  succeeds and the following enable call fails, \<open>fll1_freq\<close> is afterwards 0 (FLL off)
  and not its stale value. It fails in hw_params with the local FLL running at 45158400
  and a rate of 48000 when \<open>enable_local 49152000\<close> fails after a successful \<open>clear()\<close>,
  and in the power-up event when the last call fails: \<open>fll1_freq\<close> keeps 45158400.
\<close>

theorem failed_relock_keeps_stale_freq_counterexample:
  "run (hw_failing (enable_local_call 49152000))
       [Set_bias_level True SND_SOC_BIAS_STANDBY SND_SOC_BIAS_PREPARE] probe_card = local_card \<and>
   rpi_cirrus_hw_params (hw_failing (enable_local_call 49152000))
       SNDRV_PCM_STREAM_PLAYBACK 16 48000 local_card =
     (0, local_card
           \<lparr>calls := [enable_local_call 45158400, Set_bclk_ratio 32, Set_tdm_slot 16,
                      Wm8804_set_pll 12288000, Wm8804_set_sysclk 12288000, Set_sysclk 49152000,
                      Set_pll WM5102_FLL1 ARIZONA_FLL_SRC_NONE 0 0,
                      Set_pll WM5102_FLL1_REFCLK ARIZONA_FLL_SRC_NONE 0 0,
                      enable_local_call 49152000]\<rparr>) \<and>
   fll1_freq (priv local_card) = 45158400 \<and>
   fll1_freq (priv (snd (rpi_cirrus_hw_params (hw_failing (enable_local_call 49152000))
       SNDRV_PCM_STREAM_PLAYBACK 16 48000 local_card))) \<noteq> 0 \<and>
   fll1_freq (priv (snd (rpi_cirrus_spdif_rx_enable_event
       (hw_failing (Set_pll WM5102_FLL1 ARIZONA_CLK_SRC_AIF2BCLK 2822400 45158400))
       SND_SOC_DAPM_POST_PMU local_card))) \<noteq> 0"
proof -
  have "run (hw_failing (enable_local_call 49152000))
       [Set_bias_level True SND_SOC_BIAS_STANDBY SND_SOC_BIAS_PREPARE] probe_card = local_card"
    by (rule local_card_reached) (simp add: enable_local_call_def)
  then show ?thesis
    by (simp add: hw_params_defs rpi_cirrus_spdif_rx_enable_event_def
        rpi_cirrus_set_fll_refclk_def hw_failing_def local_card_eq probe_card_def
        probe_priv_def RPI_CIRRUS_DEFAULT_RATE_def calc_sysclk_48000 calc_sysclk_44100
        enable_local_call_def WM8804_CLKOUT_HZ_def)
qed

text \<open>
  Claim C8, amended: when a call of a clock change fails, in hw_params, in the power-up
  event or in the prepare transition, the private data, \<open>fll1_freq\<close> included, keeps the
  value it had at entry: \<open>fll1_freq\<close> neither takes the new target nor becomes 0, also
  when \<open>clear()\<close> has already succeeded.
\<close>

theorem failed_clock_change_keeps_priv:
  "(\<not> calls_ok hw (calls w) (hw_params_calls w wd r) \<longrightarrow>
      priv (snd (rpi_cirrus_hw_params hw s wd r w)) = priv w) \<and>
   (\<not> calls_ok hw (calls w) (spdif_rx_enable_calls w) \<longrightarrow>
      priv (snd (rpi_cirrus_spdif_rx_enable_event hw SND_SOC_DAPM_POST_PMU w)) = priv w) \<and>
   (fst (rpi_cirrus_set_bias_level hw d b l w) \<noteq> 0 \<longrightarrow>
      priv (snd (rpi_cirrus_set_bias_level hw d b l w)) = priv w)"
proof (intro conjI impI)
  assume "\<not> calls_ok hw (calls w) (hw_params_calls w wd r)"
  then show "priv (snd (rpi_cirrus_hw_params hw s wd r w)) = priv w"
    by (simp add: hw_params_fail)
next
  assume "\<not> calls_ok hw (calls w) (spdif_rx_enable_calls w)"
  then show "priv (snd (rpi_cirrus_spdif_rx_enable_event hw SND_SOC_DAPM_POST_PMU w)) = priv w"
    by (simp add: spdif_rx_enable_fail)
next
  assume "fst (rpi_cirrus_set_bias_level hw d b l w) \<noteq> 0"
  then show "priv (snd (rpi_cirrus_set_bias_level hw d b l w)) = priv w"
    by (cases l) (simp_all add: rpi_cirrus_set_bias_level_def rpi_cirrus_set_fll_def hw_do_def
        Let_def split: if_splits)
qed

theorem failed_clock_change_keeps_priv_witness:
  "\<not> calls_ok (hw_failing (enable_local_call 49152000)) (calls local_card)
       (hw_params_calls local_card 16 48000) \<and>
   fll1_freq (priv (snd (rpi_cirrus_hw_params (hw_failing (enable_local_call 49152000))
       SNDRV_PCM_STREAM_PLAYBACK 16 48000 local_card))) = 45158400 \<and>
   \<not> calls_ok (hw_failing (Set_pll WM5102_FLL1 ARIZONA_CLK_SRC_AIF2BCLK 2822400 45158400))
       (calls local_card) (spdif_rx_enable_calls local_card) \<and>
   fll1_freq (priv (snd (rpi_cirrus_spdif_rx_enable_event
       (hw_failing (Set_pll WM5102_FLL1 ARIZONA_CLK_SRC_AIF2BCLK 2822400 45158400))
       SND_SOC_DAPM_POST_PMU local_card))) = 45158400 \<and>
   fst (rpi_cirrus_set_bias_level (hw_failing (enable_local_call 45158400)) True
       SND_SOC_BIAS_STANDBY SND_SOC_BIAS_PREPARE probe_card) \<noteq> 0 \<and>
   fll1_freq (priv (snd (rpi_cirrus_set_bias_level (hw_failing (enable_local_call 45158400)) True
       SND_SOC_BIAS_STANDBY SND_SOC_BIAS_PREPARE probe_card))) = 0"
proof -
  let ?relock = "hw_failing (enable_local_call 49152000)"
  let ?sync = "hw_failing (Set_pll WM5102_FLL1 ARIZONA_CLK_SRC_AIF2BCLK 2822400 45158400)"
  let ?lock = "hw_failing (enable_local_call 45158400)"
  have a: "\<not> calls_ok ?relock (calls local_card) (hw_params_calls local_card 16 48000)"
    by (simp add: plan_defs hw_failing_def local_card_eq probe_card_def probe_priv_def
        calc_sysclk_48000)
  have b: "\<not> calls_ok ?sync (calls local_card) (spdif_rx_enable_calls local_card)"
    by (simp add: plan_defs hw_failing_def local_card_eq probe_card_def probe_priv_def
        RPI_CIRRUS_DEFAULT_RATE_def calc_sysclk_44100)
  have c: "fst (rpi_cirrus_set_bias_level ?lock True SND_SOC_BIAS_STANDBY SND_SOC_BIAS_PREPARE
      probe_card) \<noteq> 0"
    by (simp add: rpi_cirrus_set_bias_level_def rpi_cirrus_set_fll_def hw_do_def Let_def
        hw_failing_def probe_card_def probe_priv_def RPI_CIRRUS_DEFAULT_RATE_def
        calc_sysclk_44100 enable_local_call_def WM8804_CLKOUT_HZ_def)
  from a b c
    failed_clock_change_keeps_priv [where hw = ?relock and w = local_card and wd = 16
      and r = 48000 and s = SNDRV_PCM_STREAM_PLAYBACK]
    failed_clock_change_keeps_priv [where hw = ?sync and w = local_card]
    failed_clock_change_keeps_priv [where hw = ?lock and w = probe_card and d = True
      and b = SND_SOC_BIAS_STANDBY and l = SND_SOC_BIAS_PREPARE]
  show ?thesis
    by (simp add: local_card_eq probe_card_def probe_priv_def)
qed

subsection \<open>The rate controls\<close>

text \<open>
  Claim C9. The put callbacks of the two rate controls return 1 exactly when the written
  item differs from the stored index, and store the written item as it is, whatever its
  value: writing item 5 to the minimum rate control after probe stores index 5, outside
  the three entries of the table, where the claim has it clamped to 2. Only the info
  callbacks clamp, and they clamp their own argument.
\<close>

theorem min_max_rate_put_unchecked:
  "fst (rpi_cirrus_min_rate_put item p) = (if min_rate_idx p \<noteq> item then 1 else 0) \<and>
   min_rate_idx (snd (rpi_cirrus_min_rate_put item p)) = item \<and>
   fst (rpi_cirrus_max_rate_put item p) = (if max_rate_idx p \<noteq> item then 1 else 0) \<and>
   max_rate_idx (snd (rpi_cirrus_max_rate_put item p)) = item \<and>
   rpi_cirrus_min_rate_put 5 probe_priv = (1, probe_priv\<lparr>min_rate_idx := 5\<rparr>) \<and>
   \<not> (5 :: u32) < NUM_MIN_RATES \<and>
   rpi_cirrus_min_rate_info_item 5 = 2"
  by (simp add: rpi_cirrus_min_rate_put_def rpi_cirrus_max_rate_put_def probe_priv_def
      NUM_MIN_RATES_def rpi_cirrus_min_rate_info_item_def)

subsection \<open>The result of a failed parameter negotiation\<close>

text \<open>
  Claim C10. With the local FLL running at 45158400, hw_params at 48000 on a hardware
  whose first \<open>clear()\<close> call fails with -22 returns 0, not the error; \<open>card_rate\<close> and
  \<open>params_set\<close> keep their values as the claim says. The power-up event returns the
  error of the same failing call.
\<close>

theorem hw_params_clear_failure_returns_zero:
  "run (hw_failing (Set_pll WM5102_FLL1 ARIZONA_FLL_SRC_NONE 0 0))
       [Set_bias_level True SND_SOC_BIAS_STANDBY SND_SOC_BIAS_PREPARE] probe_card = local_card \<and>
   hw_failing (Set_pll WM5102_FLL1 ARIZONA_FLL_SRC_NONE 0 0)
       [enable_local_call 45158400, Set_bclk_ratio 32, Set_tdm_slot 16,
        Wm8804_set_pll 12288000, Wm8804_set_sysclk 12288000, Set_sysclk 49152000]
       (Set_pll WM5102_FLL1 ARIZONA_FLL_SRC_NONE 0 0) = - 22 \<and>
   rpi_cirrus_hw_params (hw_failing (Set_pll WM5102_FLL1 ARIZONA_FLL_SRC_NONE 0 0))
       SNDRV_PCM_STREAM_PLAYBACK 16 48000 local_card =
     (0, local_card
           \<lparr>calls := [enable_local_call 45158400, Set_bclk_ratio 32, Set_tdm_slot 16,
                      Wm8804_set_pll 12288000, Wm8804_set_sysclk 12288000, Set_sysclk 49152000,
                      Set_pll WM5102_FLL1 ARIZONA_FLL_SRC_NONE 0 0,
                      Set_pll WM5102_FLL1_REFCLK ARIZONA_FLL_SRC_NONE 0 0]\<rparr>) \<and>
   card_rate (priv local_card) = 44100 \<and> params_set (priv local_card) = 0 \<and>
   fst (rpi_cirrus_spdif_rx_enable_event (hw_failing (Set_pll WM5102_FLL1 ARIZONA_FLL_SRC_NONE 0 0))
       SND_SOC_DAPM_POST_PMU local_card) = - 22"
proof -
  have "run (hw_failing (Set_pll WM5102_FLL1 ARIZONA_FLL_SRC_NONE 0 0))
       [Set_bias_level True SND_SOC_BIAS_STANDBY SND_SOC_BIAS_PREPARE] probe_card = local_card"
    by (rule local_card_reached) (simp add: enable_local_call_def)
  then show ?thesis
    by (simp add: hw_params_defs rpi_cirrus_spdif_rx_enable_event_def
        rpi_cirrus_set_fll_refclk_def hw_failing_def local_card_eq probe_card_def
        probe_priv_def RPI_CIRRUS_DEFAULT_RATE_def calc_sysclk_48000 calc_sysclk_44100
        enable_local_call_def WM8804_CLKOUT_HZ_def)
qed

end
